theory Spec2Isabelle
  imports Complex_Main "HOL-Library.Monad_Syntax"
begin

section \<open>JavaScript strings\<close>

text \<open>
  Strings are character lists. The source builds every search body by string
  concatenation (\<open>+\<close>, here \<open>@\<close>) and trims it with \<open>String.prototype.slice\<close>.
  \<open>slice s start stop\<close> is the library function on integer arguments: a negative
  argument counts from the end of the string, both are clamped to the string, and the
  result is empty when the bounds cross.
\<close>

definition slice :: \<open>string \<Rightarrow> int \<Rightarrow> int \<Rightarrow> string\<close> where
  \<open>slice s start stop =
     (let len = int (length s);
          lo = (if start < 0 then max (len + start) 0 else min start len);
          hi = (if stop < 0 then max (len + stop) 0 else min stop len)
      in take (nat (hi - lo)) (drop (nat lo) s))\<close>

section \<open>The statistics route: building the search body\<close>

text \<open>
  The query parameter \<open>metric\<close> as the handler receives it: absent (\<open>undefined\<close>),
  one string, or an array of strings when the parameter repeats. The optional
  parameters \<open>type\<close>, \<open>host\<close>, \<open>from\<close> and \<open>to\<close> are \<open>None\<close> when undefined.
\<close>

datatype metric_param = Absent | Single string | Many \<open>string list\<close>

text \<open>\<open>is_defined(variable)\<close>: \<open>typeof variable !== 'undefined'\<close>.\<close>

definition is_defined :: \<open>'a option \<Rightarrow> bool\<close> where
  \<open>is_defined variable = (variable \<noteq> None)\<close>

definition metric_is_defined :: \<open>metric_param \<Rightarrow> bool\<close> where
  \<open>metric_is_defined metric = (metric \<noteq> Absent)\<close>

text \<open>
  \<open>fields\<close> (in \<open>aggregation_by\<close>) and \<open>metrics\<close> (in the search callback): a string
  becomes a one-element array, anything else is taken as it is. The \<open>for ... in\<close> loop
  over \<open>undefined\<close> has no iteration, over an array it visits the indices in
  ascending order.
\<close>

fun fields_of :: \<open>metric_param \<Rightarrow> string list\<close> where
  \<open>fields_of (Single field_name) = [field_name]\<close>
| \<open>fields_of (Many names) = names\<close>
| \<open>fields_of Absent = []\<close>

definition type_filter :: \<open>string option \<Rightarrow> string\<close> where
  \<open>type_filter type =
     (case type of
        Some t \<Rightarrow>
          ''"query": {'' @
              ''"filtered": {'' @
                  ''"filter": {'' @
                      ''"type": { "value": "'' @ t @ ''" }'' @
                  ''}'' @
              ''}'' @
          ''},''
      | None \<Rightarrow> '''')\<close>

text \<open>One iteration of the loop of \<open>aggregation_by\<close>: the text appended for \<open>fields[key]\<close>.\<close>

definition field_aggs :: \<open>string \<Rightarrow> string\<close> where
  \<open>field_aggs field =
     ''"'' @ field @ ''_Stats" : {'' @
         ''"extended_stats" : {'' @
             ''"field" : "'' @ field @ ''"'' @
         ''}'' @
     ''},'' @
     ''"Minimum_'' @ field @ ''": {'' @
         ''"top_hits": {'' @
             ''"size": 1,'' @
             ''"sort": ['' @
                 ''{'' @
                     ''"'' @ field @ ''": {'' @
                         ''"order": "asc"'' @
                     ''}'' @
                 ''}'' @
             '']'' @
         ''}'' @
     ''},'' @
     ''"Maximum_'' @ field @ ''": {'' @
         ''"top_hits": {'' @
             ''"size": 1,'' @
             ''"sort": ['' @
                 ''{'' @
                     ''"'' @ field @ ''": {'' @
                         ''"order": "desc"'' @
                     ''}'' @
                 ''}'' @
             '']'' @
         ''}'' @
     ''},''\<close>

fun aggs_loop :: \<open>string list \<Rightarrow> string \<Rightarrow> string\<close> where
  \<open>aggs_loop [] query_msg = query_msg\<close>
| \<open>aggs_loop (field # fs) query_msg = aggs_loop fs (query_msg @ field_aggs field)\<close>

definition aggregation_by :: \<open>metric_param \<Rightarrow> string option \<Rightarrow> string\<close> where
  \<open>aggregation_by field_name type =
     (let query_msg = ''{'' @ type_filter type @ ''"aggs": {'';
          query_msg = aggs_loop (fields_of field_name) query_msg;
          query_msg = slice query_msg 0 (- 1)
      in query_msg @ ''}'' @ ''}'')\<close>

definition date_filter :: \<open>string option \<Rightarrow> string option \<Rightarrow> string\<close> where
  \<open>date_filter from_time to_time =
     (case (from_time, to_time) of
        (Some f, Some t) \<Rightarrow>
          ''{ '' @
              ''"range": {'' @
                  ''"@timestamp": {'' @
                      ''"from": "'' @ f @ ''",'' @
                      ''"to": "'' @ t @ ''"'' @
                  ''}'' @
              ''}'' @
          ''}''
      | _ \<Rightarrow> '''')\<close>

definition filter_and_aggregate_by ::
  \<open>metric_param \<Rightarrow> string option \<Rightarrow> string option \<Rightarrow> string option \<Rightarrow> string option \<Rightarrow> string\<close> where
  \<open>filter_and_aggregate_by field_name from_time to_time type host =
     (let filter_type =
            (case type of
               Some t \<Rightarrow> ''{ '' @ ''"type": { "value": "'' @ t @ ''" }'' @ ''},''
             | None \<Rightarrow> '''');
          filter_type =
            (case host of
               Some h \<Rightarrow> filter_type @ ''{ '' @ ''"prefix": { "host": "'' @ h @ ''" }'' @ ''},''
             | None \<Rightarrow> filter_type)
      in ''{'' @
           ''"aggs": {'' @
               ''"filtered_stats": {'' @
                   ''"filter": {'' @
                       ''"and": ['' @
                           filter_type @
                           date_filter from_time to_time @
                       '']'' @
                   ''},'' @
                   slice (aggregation_by field_name None) 1 (- 1) @
               ''}'' @
           ''}'' @
         ''}'')\<close>

text \<open>
  The value of \<open>body\<close> when \<open>handle_response\<close> calls the store:
  \<open>aggregation_by(metric, type)\<close>, replaced by
  \<open>filter_and_aggregate_by(metric, from, to, type, host)\<close> when both \<open>from\<close> and \<open>to\<close>
  are defined.
\<close>

definition search_body ::
  \<open>metric_param \<Rightarrow> string option \<Rightarrow> string option \<Rightarrow> string option \<Rightarrow> string option \<Rightarrow> string\<close> where
  \<open>search_body metric type host from_time to_time =
     (let body = aggregation_by metric type
      in if is_defined from_time \<and> is_defined to_time
         then filter_and_aggregate_by metric from_time to_time type host
         else body)\<close>

section \<open>JavaScript values\<close>

text \<open>
  Values the handlers receive from the store client and send to \<open>res.json\<close>: the
  JSON values and \<open>undefined\<close>. An object is the list of its own properties; numbers
  are rationals (every finite double is one).
\<close>

datatype jsval =
    JUndefined
  | JNull
  | JBool bool
  | JNum rat
  | JStr string
  | JArr \<open>jsval list\<close>
  | JObj \<open>(string \<times> jsval) list\<close>

text \<open>
  \<open>get_prop v k\<close> is the read \<open>v[k]\<close> for a property name \<open>k\<close> that is neither an
  array index nor the name of a built-in property (the handlers read
  \<open>'aggregations'\<close>, \<open>'filtered_stats'\<close>, \<open>'hits'\<close>, \<open>'total'\<close>, \<open>'_source'\<close>,
  \<open>'found'\<close> and the clause names, which end in \<open>_Stats\<close> or begin with
  \<open>Minimum_\<close> or \<open>Maximum_\<close>). Reading a property of \<open>undefined\<close> or \<open>null\<close> throws
  a TypeError, which no handler catches: that is \<open>None\<close>. \<open>get_first v\<close> is \<open>v[0]\<close>.
\<close>

fun get_prop :: \<open>jsval \<Rightarrow> string \<Rightarrow> jsval option\<close> where
  \<open>get_prop JUndefined k = None\<close>
| \<open>get_prop JNull k = None\<close>
| \<open>get_prop (JObj props) k = Some (case map_of props k of Some v \<Rightarrow> v | None \<Rightarrow> JUndefined)\<close>
| \<open>get_prop v k = Some JUndefined\<close>

fun get_first :: \<open>jsval \<Rightarrow> jsval option\<close> where
  \<open>get_first JUndefined = None\<close>
| \<open>get_first JNull = None\<close>
| \<open>get_first (JArr xs) = Some (case xs of [] \<Rightarrow> JUndefined | x # _ \<Rightarrow> x)\<close>
| \<open>get_first (JStr s) = Some (case s of [] \<Rightarrow> JUndefined | c # _ \<Rightarrow> JStr [c])\<close>
| \<open>get_first (JObj props) = Some (case map_of props ''0'' of Some v \<Rightarrow> v | None \<Rightarrow> JUndefined)\<close>
| \<open>get_first v = Some JUndefined\<close>

text \<open>\<open>truthy v\<close>: the branch \<open>if (v)\<close> takes.\<close>

fun truthy :: \<open>jsval \<Rightarrow> bool\<close> where
  \<open>truthy JUndefined = False\<close>
| \<open>truthy JNull = False\<close>
| \<open>truthy (JBool b) = b\<close>
| \<open>truthy (JNum n) = (n \<noteq> 0)\<close>
| \<open>truthy (JStr s) = (s \<noteq> [])\<close>
| \<open>truthy (JArr xs) = True\<close>
| \<open>truthy (JObj props) = True\<close>

text \<open>
  \<open>v == 0\<close>, the loose comparison. On a number it is equality, a boolean is compared
  as 0 or 1, \<open>null\<close> and \<open>undefined\<close> equal only each other. A string, an array or an
  object is first converted to a number by the runtime; that conversion is the parameter
  \<open>coerce\<close>, which says whether the converted value is zero, \<open>None\<close> when converting
  throws.
\<close>

fun loose_eq_zero :: \<open>(jsval \<Rightarrow> bool option) \<Rightarrow> jsval \<Rightarrow> bool option\<close> where
  \<open>loose_eq_zero coerce (JNum n) = Some (n = 0)\<close>
| \<open>loose_eq_zero coerce (JBool b) = Some (\<not> b)\<close>
| \<open>loose_eq_zero coerce JNull = Some False\<close>
| \<open>loose_eq_zero coerce JUndefined = Some False\<close>
| \<open>loose_eq_zero coerce v = coerce v\<close>

text \<open>
  \<open>String.prototype.toLowerCase\<close> is the runtime's function, which lower-cases
  every letter of Unicode. The handlers take it as the parameter \<open>toLowerCase\<close>;
  nothing is assumed about it.
\<close>

section \<open>The store client and the replies\<close>

text \<open>
  The Elasticsearch client takes a request and a callback \<open>function(error, response)\<close>.
  For one request the store is what it passes to each callback: \<open>indices.refresh\<close>
  (by index), \<open>search\<close> (by index and body; the search type is always \<open>'count'\<close>),
  \<open>get\<close> and \<open>index\<close> (by index, type and id; \<open>index\<close> also by the document).
\<close>

record client =
  indices_refresh :: \<open>string \<Rightarrow> jsval\<close>
  search :: \<open>string \<Rightarrow> string \<Rightarrow> jsval \<times> jsval\<close>
  get_doc :: \<open>string \<Rightarrow> string \<Rightarrow> string \<Rightarrow> jsval \<times> jsval\<close>
  index_doc :: \<open>string \<Rightarrow> string \<Rightarrow> string \<Rightarrow> jsval \<Rightarrow> jsval \<times> jsval\<close>

datatype store_call =
    Refresh string
  | Search string string
  | Get string string string
  | Index string string string jsval

text \<open>
  What the client of the HTTP interface gets: the status (200 unless \<open>res.status\<close>
  was called) and the value given to \<open>res.json\<close>. A handler's result is the list of
  store calls it made, in order, and the reply, \<open>None\<close> when a callback threw before
  replying.
\<close>

record reply =
  status :: nat
  json :: jsval

type_synonym outcome = \<open>store_call list \<times> reply option\<close>

section \<open>The statistics route: flattening the response\<close>

record stats_request =
  param_workflowID :: string
  param_taskID :: string
  param_experimentID :: string
  query_host :: \<open>string option\<close>
  query_metric :: metric_param
  query_from :: \<open>string option\<close>
  query_to :: \<open>string option\<close>

text \<open>\<open>aggs[name]['hits']['hits'][0]['_source']\<close>\<close>

definition top_source :: \<open>jsval \<Rightarrow> string \<Rightarrow> jsval option\<close> where
  \<open>top_source aggs name =
     do {
       node \<leftarrow> get_prop aggs name;
       outer \<leftarrow> get_prop node ''hits'';
       inner \<leftarrow> get_prop outer ''hits'';
       hit \<leftarrow> get_first inner;
       get_prop hit ''_source''
     }\<close>

text \<open>
  The part of an iteration of the callback's loop after \<open>aggs\<close> has been resolved,
  for the metric \<open>m = metrics[key]\<close>: the value pushed onto \<open>answers\<close>.
\<close>

definition summary_at ::
  \<open>(jsval \<Rightarrow> bool option) \<Rightarrow> string \<Rightarrow> jsval \<Rightarrow> string \<Rightarrow> jsval option\<close> where
  \<open>summary_at coerce href aggs m =
     do {
       node \<leftarrow> get_prop aggs (''Minimum_'' @ m);
       hits \<leftarrow> get_prop node ''hits'';
       total \<leftarrow> get_prop hits ''total'';
       is_empty \<leftarrow> loose_eq_zero coerce total;
       if is_empty
       then Some (JObj [(''error'', JStr ''response is empty for the metric'')])
       else do {
         statistics \<leftarrow> get_prop aggs (m @ ''_Stats'');
         minimum \<leftarrow> top_source aggs (''Minimum_'' @ m);
         maximum \<leftarrow> top_source aggs (''Maximum_'' @ m);
         Some (JObj [(''workflow'', JObj [(''href'', JStr href)]),
                     (''metric'', JStr m),
                     (''statistics'', statistics),
                     (''min'', minimum),
                     (''max'', maximum)])
       }
     }\<close>

text \<open>
  One iteration: \<open>aggs = response.aggregations\<close>, then
  \<open>aggs = aggs['filtered_stats']\<close> when both \<open>from\<close> and \<open>to\<close> are defined.
\<close>

definition summarize ::
  \<open>(jsval \<Rightarrow> bool option) \<Rightarrow> string \<Rightarrow> string option \<Rightarrow> string option \<Rightarrow> jsval \<Rightarrow> string \<Rightarrow>
   jsval option\<close> where
  \<open>summarize coerce href from_time to_time response m =
     do {
       aggs \<leftarrow> get_prop response ''aggregations'';
       aggs \<leftarrow> (if is_defined from_time \<and> is_defined to_time
                then get_prop aggs ''filtered_stats'' else Some aggs);
       summary_at coerce href aggs m
     }\<close>

fun answers_loop :: \<open>(string \<Rightarrow> jsval option) \<Rightarrow> string list \<Rightarrow> jsval list \<Rightarrow> jsval list option\<close> where
  \<open>answers_loop step [] answers = Some answers\<close>
| \<open>answers_loop step (m # metrics) answers =
     (case step m of
        None \<Rightarrow> None
      | Some answer \<Rightarrow> answers_loop step metrics (answers @ [answer]))\<close>

text \<open>The body of the search callback once \<open>error\<close> is known to be falsy.\<close>

definition flatten ::
  \<open>(jsval \<Rightarrow> bool option) \<Rightarrow> string \<Rightarrow> metric_param \<Rightarrow> string option \<Rightarrow> string option \<Rightarrow> jsval \<Rightarrow>
   jsval list option\<close> where
  \<open>flatten coerce href metric from_time to_time response =
     answers_loop (summarize coerce href from_time to_time response) (fields_of metric) []\<close>

definition handle_response ::
  \<open>(string \<Rightarrow> string) \<Rightarrow> (jsval \<Rightarrow> bool option) \<Rightarrow> client \<Rightarrow> string \<Rightarrow> stats_request \<Rightarrow> string \<Rightarrow>
   string option \<Rightarrow> outcome\<close> where
  \<open>handle_response toLowerCase coerce elastic mf_server_setting req index type =
     (let mf_server = mf_server_setting @ ''/mf'';
          workflowID = toLowerCase (param_workflowID req);
          host = query_host req;
          metric = query_metric req;
          from_time = query_from req;
          to_time = query_to req;
          body = aggregation_by metric type
      in if \<not> metric_is_defined metric
         then ([], Some \<lparr>status = 200,
                         json = JObj [(''error'',
                                  JObj [(''message'', JStr ''parameter metric is missing'')])]\<rparr>)
         else
           let body = (if is_defined from_time \<and> is_defined to_time
                       then filter_and_aggregate_by metric from_time to_time type host
                       else body);
               error = indices_refresh elastic index
           in if truthy error
              then ([Refresh index], Some \<lparr>status = 200, json = error\<rparr>)
              else
                let (error, response) = search elastic index body
                in if truthy error
                   then ([Refresh index, Search index body], Some \<lparr>status = 200, json = error\<rparr>)
                   else ([Refresh index, Search index body],
                         map_option (\<lambda>answers. \<lparr>status = 200, json = JArr answers\<rparr>)
                           (flatten coerce (mf_server @ ''/workflows/'' @ workflowID)
                              metric from_time to_time response)))\<close>

text \<open>The three routes of the statistics router.\<close>

definition stats_workflow ::
  \<open>(string \<Rightarrow> string) \<Rightarrow> (jsval \<Rightarrow> bool option) \<Rightarrow> client \<Rightarrow> string \<Rightarrow> stats_request \<Rightarrow> outcome\<close> where
  \<open>stats_workflow toLowerCase coerce elastic mf_server_setting req =
     (let workflowID = toLowerCase (param_workflowID req);
          index = workflowID @ ''_*''
      in handle_response toLowerCase coerce elastic mf_server_setting req index None)\<close>

definition stats_task ::
  \<open>(string \<Rightarrow> string) \<Rightarrow> (jsval \<Rightarrow> bool option) \<Rightarrow> client \<Rightarrow> string \<Rightarrow> stats_request \<Rightarrow> outcome\<close> where
  \<open>stats_task toLowerCase coerce elastic mf_server_setting req =
     (let workflowID = toLowerCase (param_workflowID req);
          taskID = toLowerCase (param_taskID req);
          index = workflowID @ ''_'' @ taskID
      in handle_response toLowerCase coerce elastic mf_server_setting req index None)\<close>

definition stats_experiment ::
  \<open>(string \<Rightarrow> string) \<Rightarrow> (jsval \<Rightarrow> bool option) \<Rightarrow> client \<Rightarrow> string \<Rightarrow> stats_request \<Rightarrow> outcome\<close> where
  \<open>stats_experiment toLowerCase coerce elastic mf_server_setting req =
     (let workflowID = toLowerCase (param_workflowID req);
          taskID = toLowerCase (param_taskID req);
          type = param_experimentID req;
          index = workflowID @ ''_'' @ taskID
      in handle_response toLowerCase coerce elastic mf_server_setting req index (Some type))\<close>

section \<open>The configuration and workflow routes\<close>

text \<open>\<open>GET /configs/:platformID\<close> and \<open>PUT /configs/:platformID\<close>.\<close>

definition get_config :: \<open>(string \<Rightarrow> string) \<Rightarrow> client \<Rightarrow> string \<Rightarrow> outcome\<close> where
  \<open>get_config toLowerCase elastic param_platformID =
     (let platformID = toLowerCase param_platformID;
          (error, response) = get_doc elastic ''mf'' ''configurations'' platformID
      in ([Get ''mf'' ''configurations'' platformID],
          do {
            found \<leftarrow> get_prop response ''found'';
            body \<leftarrow> (if truthy found then get_prop response ''_source''
                     else Some (JObj [(''error'',
                            JStr (''Configuration for the platform'' @ [CHR 0x27] @ platformID @
                                  [CHR 0x27] @ '' is not found.''))]));
            Some \<lparr>status = 200, json = body\<rparr>
          }))\<close>

definition put_config ::
  \<open>(string \<Rightarrow> string) \<Rightarrow> client \<Rightarrow> string \<Rightarrow> string \<Rightarrow> jsval \<Rightarrow> outcome\<close> where
  \<open>put_config toLowerCase elastic mf_server param_platformID req_body =
     (let platformID = toLowerCase param_platformID;
          (error, response) = index_doc elastic ''mf'' ''configurations'' platformID req_body
      in ([Index ''mf'' ''configurations'' platformID req_body],
          if error \<noteq> JStr ''undefined''
          then Some \<lparr>status = 200,
                     json = JObj [(''href'', JStr (mf_server @ ''/mf/configs/'' @ platformID))]\<rparr>
          else Some \<lparr>status = 500,
                     json = JObj [(''error'', JStr ''Could not change the configuration.'')]\<rparr>))\<close>

text \<open>\<open>GET /workflows/:id\<close> and \<open>PUT /workflows/:id\<close>.\<close>

definition get_workflow :: \<open>(string \<Rightarrow> string) \<Rightarrow> client \<Rightarrow> string \<Rightarrow> outcome\<close> where
  \<open>get_workflow toLowerCase elastic param_id =
     (let id' = toLowerCase param_id;
          (error, response) = get_doc elastic ''mf'' ''workflows'' id'
      in ([Get ''mf'' ''workflows'' id'],
          do {
            found \<leftarrow> get_prop response ''found'';
            body \<leftarrow> (if truthy found then get_prop response ''_source''
                     else Some (JObj [(''error'',
                            JStr (''Workflow with the ID '' @ [CHR 0x27] @ id' @ [CHR 0x27] @
                                  '' not found.''))]));
            Some \<lparr>status = 200, json = body\<rparr>
          }))\<close>

definition put_workflow ::
  \<open>(string \<Rightarrow> string) \<Rightarrow> client \<Rightarrow> string \<Rightarrow> string \<Rightarrow> jsval \<Rightarrow> outcome\<close> where
  \<open>put_workflow toLowerCase elastic mf_server param_id req_body =
     (let id' = toLowerCase param_id;
          (error, response) = index_doc elastic ''mf'' ''workflows'' id' req_body
      in ([Index ''mf'' ''workflows'' id' req_body],
          if error \<noteq> JStr ''undefined''
          then Some \<lparr>status = 200,
                     json = JObj [(''href'', JStr (mf_server @ ''/mf/workflows/'' @ id'))]\<rparr>
          else Some \<lparr>status = 500,
                     json = JObj [(''error'', JStr ''Could not create the workflow.'')]\<rparr>))\<close>

section \<open>Lower-casing ASCII identifiers\<close>

text \<open>
  What \<open>toLowerCase\<close> does to a string of ASCII characters, for running the handlers
  on such identifiers: each of the letters \<open>A\<close> to \<open>Z\<close> becomes the corresponding
  letter of \<open>a\<close> to \<open>z\<close>, every other character stays.
\<close>

definition upper_letters :: string where
  \<open>upper_letters = ''ABCDEFGHIJKLMNOPQRSTUVWXYZ''\<close>

definition lower_letters :: string where
  \<open>lower_letters = ''abcdefghijklmnopqrstuvwxyz''\<close>

definition lower_of :: \<open>char \<Rightarrow> char option\<close> where
  \<open>lower_of c = map_of (zip upper_letters lower_letters) c\<close>

definition lower_char :: \<open>char \<Rightarrow> char\<close> where
  \<open>lower_char c = (case lower_of c of Some d \<Rightarrow> d | None \<Rightarrow> c)\<close>

definition ascii_lower :: \<open>string \<Rightarrow> string\<close> where
  \<open>ascii_lower s = map lower_char s\<close>

text \<open>
  Two ASCII characters are case variants when they are equal or one is an upper-case
  letter and the other its lower-case letter; two ASCII strings are when they are so
  character by character. Such strings have the same lower-case form.
\<close>

definition ascii_case_variant :: \<open>char \<Rightarrow> char \<Rightarrow> bool\<close> where
  \<open>ascii_case_variant c d = (c = d \<or> lower_of c = Some d \<or> lower_of d = Some c)\<close>

definition ascii_case_variants :: \<open>string \<Rightarrow> string \<Rightarrow> bool\<close> where
  \<open>ascii_case_variants a b = list_all2 ascii_case_variant a b\<close>

section \<open>The search body as a tree\<close>

text \<open>
  The specification describes the body by its structure: named aggregation clauses,
  an optional top-level query filter, and an optional outer filter aggregation around
  the clauses. \<open>render_query\<close> writes such a tree in the concrete syntax the source uses.
\<close>

datatype sort_order = Asc | Desc

datatype metric_agg = ExtendedStats string | TopHits nat string sort_order

datatype filter_clause = TypeIs string | HostPrefix string | TimestampRange string string

datatype agg_tree =
    PerMetric \<open>(string \<times> metric_agg) list\<close>
  | FilterNode string \<open>filter_clause list\<close> \<open>(string \<times> metric_agg) list\<close>

record query =
  top_filter :: \<open>filter_clause option\<close>
  aggs_tree :: agg_tree

fun comma_sep :: \<open>string list \<Rightarrow> string\<close> where
  \<open>comma_sep [] = ''''\<close>
| \<open>comma_sep [x] = x\<close>
| \<open>comma_sep (x # y # zs) = x @ '','' @ comma_sep (y # zs)\<close>

definition digit_char :: \<open>nat \<Rightarrow> char\<close> where
  \<open>digit_char d = ''0123456789'' ! d\<close>

fun show_nat :: \<open>nat \<Rightarrow> string\<close> where
  \<open>show_nat n = (if n < 10 then [digit_char n] else show_nat (n div 10) @ [digit_char (n mod 10)])\<close>

declare show_nat.simps [simp del]

fun render_order :: \<open>sort_order \<Rightarrow> string\<close> where
  \<open>render_order Asc = ''asc''\<close>
| \<open>render_order Desc = ''desc''\<close>

fun render_clause :: \<open>string \<times> metric_agg \<Rightarrow> string\<close> where
  \<open>render_clause (name, ExtendedStats field) =
     ''"'' @ name @ ''" : {"extended_stats" : {"field" : "'' @ field @ ''"}}''\<close>
| \<open>render_clause (name, TopHits n field ord) =
     ''"'' @ name @ ''": {"top_hits": {"size": '' @ show_nat n @
     '',"sort": [{"'' @ field @ ''": {"order": "'' @ render_order ord @ ''"}}]}}''\<close>

fun filter_text :: \<open>filter_clause \<Rightarrow> string\<close> where
  \<open>filter_text (TypeIs t) = ''"type": { "value": "'' @ t @ ''" }''\<close>
| \<open>filter_text (HostPrefix h) = ''"prefix": { "host": "'' @ h @ ''" }''\<close>
| \<open>filter_text (TimestampRange f t) =
     ''"range": {"@timestamp": {"from": "'' @ f @ ''","to": "'' @ t @ ''"}}''\<close>

definition render_aggs :: \<open>(string \<times> metric_agg) list \<Rightarrow> string\<close> where
  \<open>render_aggs clauses = ''"aggs": {'' @ comma_sep (map render_clause clauses) @ ''}''\<close>

fun render_tree :: \<open>agg_tree \<Rightarrow> string\<close> where
  \<open>render_tree (PerMetric clauses) = render_aggs clauses\<close>
| \<open>render_tree (FilterNode name filters clauses) =
     ''"aggs": {"'' @ name @ ''": {"filter": {"and": ['' @
     comma_sep (map (\<lambda>f. ''{ '' @ filter_text f @ ''}'') filters) @
     '']},'' @ render_aggs clauses @ ''}}''\<close>

definition render_query :: \<open>query \<Rightarrow> string\<close> where
  \<open>render_query q =
     ''{'' @
     (case top_filter q of
        None \<Rightarrow> ''''
      | Some f \<Rightarrow> ''"query": {"filtered": {"filter": {'' @ filter_text f @ ''}}},'') @
     render_tree (aggs_tree q) @ ''}''\<close>

text \<open>
  The three clauses the specification names for a metric \<open>m\<close>: extended statistics
  \<open>m_Stats\<close>, and the size-1 top hits \<open>Minimum_m\<close> (ascending by \<open>m\<close>) and
  \<open>Maximum_m\<close> (descending by \<open>m\<close>).
\<close>

definition spec_clauses :: \<open>string \<Rightarrow> (string \<times> metric_agg) list\<close> where
  \<open>spec_clauses m =
     [(m @ ''_Stats'', ExtendedStats m),
      (''Minimum_'' @ m, TopHits 1 m Asc),
      (''Maximum_'' @ m, TopHits 1 m Desc)]\<close>

section \<open>Sample data\<close>

text \<open>
  A store response for the metrics \<open>A\<close> (two documents) and \<open>B\<close> (none), a client
  that returns it, and a request, for evaluating the handlers.
\<close>

definition sample_aggs :: jsval where
  \<open>sample_aggs =
     JObj [(''A_Stats'', JObj [(''count'', JNum 2), (''min'', JNum 1), (''max'', JNum 5)]),
           (''Minimum_A'', JObj [(''hits'', JObj [(''total'', JNum 2),
              (''hits'', JArr [JObj [(''_source'', JObj [(''host'', JStr ''node01''), (''A'', JNum 1)])]])])]),
           (''Maximum_A'', JObj [(''hits'', JObj [(''total'', JNum 2),
              (''hits'', JArr [JObj [(''_source'', JObj [(''host'', JStr ''node02''), (''A'', JNum 5)])]])])]),
           (''B_Stats'', JObj [(''count'', JNum 0)]),
           (''Minimum_B'', JObj [(''hits'', JObj [(''total'', JNum 0), (''hits'', JArr [])])]),
           (''Maximum_B'', JObj [(''hits'', JObj [(''total'', JNum 0), (''hits'', JArr [])])])]\<close>

definition sample_client :: \<open>jsval \<Rightarrow> client\<close> where
  \<open>sample_client response =
     \<lparr>indices_refresh = (\<lambda>index. JUndefined),
      search = (\<lambda>index body. (JUndefined, response)),
      get_doc = (\<lambda>index type id. (JUndefined, JObj [(''found'', JBool False)])),
      index_doc = (\<lambda>index type id doc.
        (JObj [(''message'', JStr ''No Living connections'')], JUndefined))\<rparr>\<close>

definition sample_request :: stats_request where
  \<open>sample_request =
     \<lparr>param_workflowID = ''MS2'', param_taskID = ''T2.1'', param_experimentID = ''AVSbT0Ch'',
      query_host = None, query_metric = Many [''A'', ''B'', ''A''],
      query_from = None, query_to = None\<rparr>\<close>

section \<open>Properties of the query builder\<close>

lemma slice_drop_last: \<open>slice s 0 (- 1) = butlast s\<close>
  by (simp add: slice_def Let_def butlast_conv_take nat_diff_distrib' max_def)

lemma slice_strip_ends: \<open>slice s 1 (- 1) = butlast (tl s)\<close>
proof (cases s)
  case Nil
  then show ?thesis by (simp add: slice_def)
next
  case (Cons c cs)
  have \<open>nat (int (length cs) - 1) = length cs - Suc 0\<close>
    by arith
  with Cons show ?thesis
    by (simp add: slice_def Let_def butlast_conv_take drop_Suc min_def)
qed

lemma show_nat_1: \<open>show_nat (Suc 0) = ''1''\<close>
  by (simp add: show_nat.simps digit_char_def)

lemma aggs_loop_append: \<open>aggs_loop fs query_msg = query_msg @ concat (map field_aggs fs)\<close>
  by (induction fs arbitrary: query_msg) simp_all

lemma field_aggs_clauses:
  \<open>field_aggs m = concat (map (\<lambda>c. render_clause c @ '','') (spec_clauses m))\<close>
  by (simp add: field_aggs_def spec_clauses_def show_nat_1)

lemma butlast_trailing_commas:
  \<open>xs \<noteq> [] \<Longrightarrow> butlast (concat (map (\<lambda>x. x @ '','') xs)) = comma_sep xs\<close>
proof (induction xs rule: comma_sep.induct)
  case 1
  then show ?case by simp
next
  case (2 x)
  then show ?case by simp
next
  case (3 x y zs)
  then show ?case by (simp add: butlast_append)
qed

lemma loop_text_clauses:
  \<open>concat (map field_aggs ms) =
     concat (map (\<lambda>x. x @ '','') (map render_clause (concat (map spec_clauses ms))))\<close>
  by (induction ms) (simp_all add: field_aggs_clauses comp_def)

lemma spec_clauses_nonempty: \<open>ms \<noteq> [] \<Longrightarrow> concat (map spec_clauses ms) \<noteq> []\<close>
  by (cases ms) (simp_all add: spec_clauses_def)

lemma aggregation_by_render:
  assumes \<open>fields_of metric \<noteq> []\<close>
  shows \<open>aggregation_by metric type =
         render_query \<lparr>top_filter = map_option TypeIs type,
                       aggs_tree = PerMetric (concat (map spec_clauses (fields_of metric)))\<rparr>\<close>
proof -
  let ?cs = \<open>map render_clause (concat (map spec_clauses (fields_of metric)))\<close>
  have ne: \<open>?cs \<noteq> []\<close>
    using assms spec_clauses_nonempty by simp
  then have ne': \<open>concat (map (\<lambda>x. x @ '','') ?cs) \<noteq> []\<close>
    by (cases ?cs) simp_all
  have \<open>butlast ((''{'' @ type_filter type @ ''"aggs": {'') @ concat (map (\<lambda>x. x @ '','') ?cs))
        = (''{'' @ type_filter type @ ''"aggs": {'') @ comma_sep ?cs\<close>
    using ne' butlast_trailing_commas [OF ne] by (simp only: butlast_append if_False)
  then show ?thesis
    by (cases type)
       (simp_all add: aggregation_by_def Let_def aggs_loop_append loop_text_clauses
          slice_drop_last render_query_def render_aggs_def type_filter_def)
qed

text \<open>
  C1. For a non-empty list of metric names and no filter, the body built by
  \<open>aggregation_by\<close> is the rendering of a query with no top-level filter whose
  aggregations are, for each metric \<open>m\<close> in order, exactly the three clauses
  \<open>m_Stats\<close> (extended statistics over \<open>m\<close>), \<open>Minimum_m\<close> (top hits of size 1,
  ascending by \<open>m\<close>) and \<open>Maximum_m\<close> (top hits of size 1, descending by \<open>m\<close>),
  and nothing else.
\<close>

theorem C1_three_clauses_per_metric:
  \<open>ms \<noteq> [] \<Longrightarrow>
   aggregation_by (Many ms) None =
     render_query \<lparr>top_filter = None,
                   aggs_tree = PerMetric (concat (map (\<lambda>m.
                     [(m @ ''_Stats'', ExtendedStats m),
                      (''Minimum_'' @ m, TopHits 1 m Asc),
                      (''Maximum_'' @ m, TopHits 1 m Desc)]) ms))\<rparr>\<close>
  using aggregation_by_render [of \<open>Many ms\<close> None]
  by (simp add: spec_clauses_def [abs_def])

theorem C1_witness:
  \<open>[''A'', ''B''] \<noteq> [] \<and>
   aggregation_by (Many [''A'', ''B'']) None =
     render_query \<lparr>top_filter = None,
                   aggs_tree = PerMetric
                     [(''A_Stats'', ExtendedStats ''A''),
                      (''Minimum_A'', TopHits 1 ''A'' Asc),
                      (''Maximum_A'', TopHits 1 ''A'' Desc),
                      (''B_Stats'', ExtendedStats ''B''),
                      (''Minimum_B'', TopHits 1 ''B'' Asc),
                      (''Maximum_B'', TopHits 1 ''B'' Desc)]\<rparr>\<close>
  using C1_three_clauses_per_metric [of \<open>[''A'', ''B'']\<close>] by simp


section \<open>Properties of the handlers\<close>

lemma answers_loop_those:
  \<open>answers_loop step ms answers = map_option ((@) answers) (those (map step ms))\<close>
proof (induction ms arbitrary: answers)
  case Nil
  then show ?case by simp
next
  case (Cons m ms)
  show ?case
  proof (cases \<open>step m\<close>)
    case None
    then show ?thesis by simp
  next
    case (Some a)
    then show ?thesis
      by (simp add: Cons.IH option.map_comp comp_def)
  qed
qed

lemma flatten_those:
  \<open>flatten coerce href metric from_time to_time response =
     those (map (summarize coerce href from_time to_time response) (fields_of metric))\<close>
  by (cases \<open>those (map (summarize coerce href from_time to_time response) (fields_of metric))\<close>)
     (simp_all add: flatten_def answers_loop_those)

lemma those_Some_nth:
  \<open>those (map f xs) = Some ys \<Longrightarrow>
   length ys = length xs \<and> (\<forall>i < length xs. f (xs ! i) = Some (ys ! i))\<close>
proof (induction xs arbitrary: ys)
  case Nil
  then show ?case by simp
next
  case (Cons x xs)
  from Cons.prems obtain y zs where y: \<open>f x = Some y\<close> and zs: \<open>those (map f xs) = Some zs\<close>
    and ys: \<open>ys = y # zs\<close>
    by (auto split: option.splits)
  from Cons.IH [OF zs] have len: \<open>length zs = length xs\<close>
    and nth: \<open>\<forall>i < length xs. f (xs ! i) = Some (zs ! i)\<close>
    by simp_all
  show ?case
  proof (intro conjI allI impI)
    show \<open>length ys = length (x # xs)\<close>
      using len ys by simp
  next
    fix i
    assume \<open>i < length (x # xs)\<close>
    then show \<open>f ((x # xs) ! i) = Some (ys ! i)\<close>
      using y nth ys by (cases i) simp_all
  qed
qed

lemma those_map_total: \<open>\<forall>x \<in> set xs. f x \<noteq> None \<Longrightarrow> those (map f xs) \<noteq> None\<close>
  by (induction xs) auto

lemma those_map_None: \<open>xs \<noteq> [] \<Longrightarrow> those (map (\<lambda>x. None) xs) = None\<close>
  by (cases xs) simp_all

lemma strip_rendered_query:
  \<open>slice (render_query \<lparr>top_filter = None, aggs_tree = PerMetric cs\<rparr>) 1 (- 1) = render_aggs cs\<close>
  by (simp add: slice_strip_ends render_query_def butlast_append render_aggs_def)

lemma filtered_body_render:
  assumes \<open>fields_of metric \<noteq> []\<close>
  shows \<open>filter_and_aggregate_by metric (Some f) (Some t) type host =
           render_query \<lparr>top_filter = None,
             aggs_tree = FilterNode ''filtered_stats''
               ((case type of Some x \<Rightarrow> [TypeIs x] | None \<Rightarrow> []) @
                (case host of Some h \<Rightarrow> [HostPrefix h] | None \<Rightarrow> []) @
                [TimestampRange f t])
               (concat (map spec_clauses (fields_of metric)))\<rparr>\<close>
proof -
  have inner: \<open>slice (aggregation_by metric None) 1 (- 1) =
                render_aggs (concat (map spec_clauses (fields_of metric)))\<close>
    using aggregation_by_render [OF assms, of None] strip_rendered_query by simp
  show ?thesis
    by (cases type; cases host)
       (simp_all add: filter_and_aggregate_by_def inner date_filter_def render_query_def)
qed

lemma sample_A:
  \<open>summary_at coerce href sample_aggs ''A'' =
     Some (JObj [(''workflow'', JObj [(''href'', JStr href)]),
                 (''metric'', JStr ''A''),
                 (''statistics'', JObj [(''count'', JNum 2), (''min'', JNum 1), (''max'', JNum 5)]),
                 (''min'', JObj [(''host'', JStr ''node01''), (''A'', JNum 1)]),
                 (''max'', JObj [(''host'', JStr ''node02''), (''A'', JNum 5)])])\<close>
  by (simp add: summary_at_def sample_aggs_def top_source_def)

lemma sample_B:
  \<open>summary_at coerce href sample_aggs ''B'' =
     Some (JObj [(''error'', JStr ''response is empty for the metric'')])\<close>
  by (simp add: summary_at_def sample_aggs_def top_source_def)

lemma sample_flatten:
  \<open>flatten coerce href (Many [''A'', ''B'', ''A'']) None None (JObj [(''aggregations'', sample_aggs)]) =
     Some [JObj [(''workflow'', JObj [(''href'', JStr href)]),
                 (''metric'', JStr ''A''),
                 (''statistics'', JObj [(''count'', JNum 2), (''min'', JNum 1), (''max'', JNum 5)]),
                 (''min'', JObj [(''host'', JStr ''node01''), (''A'', JNum 1)]),
                 (''max'', JObj [(''host'', JStr ''node02''), (''A'', JNum 5)])],
           JObj [(''error'', JStr ''response is empty for the metric'')],
           JObj [(''workflow'', JObj [(''href'', JStr href)]),
                 (''metric'', JStr ''A''),
                 (''statistics'', JObj [(''count'', JNum 2), (''min'', JNum 1), (''max'', JNum 5)]),
                 (''min'', JObj [(''host'', JStr ''node01''), (''A'', JNum 1)]),
                 (''max'', JObj [(''host'', JStr ''node02''), (''A'', JNum 5)])]]\<close>
  by (simp add: flatten_those summarize_def is_defined_def sample_A sample_B)

lemma ascii_lower_sample: \<open>ascii_lower ''Node01'' = ''node01''\<close>
  by (simp add: ascii_lower_def lower_char_def lower_of_def upper_letters_def lower_letters_def)

lemma lower_of_range: \<open>lower_of c = Some d \<Longrightarrow> d \<in> set lower_letters\<close>
  unfolding lower_of_def by (auto dest!: map_of_SomeD set_zip_rightD)

lemma lower_of_lower: \<open>d \<in> set lower_letters \<Longrightarrow> lower_of d = None\<close>
proof -
  assume \<open>d \<in> set lower_letters\<close>
  then have \<open>d \<in> {CHR ''a'', CHR ''b'', CHR ''c'', CHR ''d'', CHR ''e'', CHR ''f'', CHR ''g'',
    CHR ''h'', CHR ''i'', CHR ''j'', CHR ''k'', CHR ''l'', CHR ''m'', CHR ''n'', CHR ''o'',
    CHR ''p'', CHR ''q'', CHR ''r'', CHR ''s'', CHR ''t'', CHR ''u'', CHR ''v'', CHR ''w'',
    CHR ''x'', CHR ''y'', CHR ''z''}\<close>
    by (simp add: lower_letters_def)
  then show ?thesis
    by (elim insertE emptyE) (simp_all add: lower_of_def upper_letters_def lower_letters_def)
qed

lemma lower_char_variant: \<open>ascii_case_variant c d \<Longrightarrow> lower_char c = lower_char d\<close>
proof -
  have up: \<open>lower_char x = lower_char y\<close> if \<open>lower_of x = Some y\<close> for x y
    using that lower_of_lower [OF lower_of_range [OF that]] by (simp add: lower_char_def)
  assume \<open>ascii_case_variant c d\<close>
  then consider \<open>c = d\<close> | \<open>lower_of c = Some d\<close> | \<open>lower_of d = Some c\<close>
    by (auto simp add: ascii_case_variant_def)
  then show ?thesis
  proof cases
    case 1
    then show ?thesis by simp
  next
    case 2
    then show ?thesis by (rule up)
  next
    case 3
    then show ?thesis using up [of d c] by simp
  qed
qed

lemma ascii_lower_variant: \<open>ascii_case_variants a b \<Longrightarrow> ascii_lower a = ascii_lower b\<close>
  unfolding ascii_case_variants_def ascii_lower_def
  by (induction a b rule: list_all2_induct) (simp_all add: lower_char_variant)

lemma variant_sample: \<open>ascii_case_variants ''MS2'' ''ms2''\<close>
  by (simp add: ascii_case_variants_def ascii_case_variant_def lower_of_def upper_letters_def
      lower_letters_def)

lemma those_Some_set:
  \<open>those (map f xs) = Some ys \<Longrightarrow> \<forall>y \<in> set ys. \<exists>x \<in> set xs. f x = Some y\<close>
proof (induction xs arbitrary: ys)
  case Nil
  then show ?case by simp
next
  case (Cons x xs)
  from Cons.prems obtain y zs where \<open>f x = Some y\<close> and zs: \<open>those (map f xs) = Some zs\<close>
    and \<open>ys = y # zs\<close>
    by (auto split: option.splits)
  with Cons.IH [OF zs] show ?case by auto
qed

lemma summary_at_link:
  assumes \<open>summary_at coerce href aggs m = Some a\<close>
  shows \<open>a = JObj [(''error'', JStr ''response is empty for the metric'')] \<or>
         Option.bind (get_prop a ''workflow'') (\<lambda>w. get_prop w ''href'') = Some (JStr href)\<close>
  using assms by (auto simp add: summary_at_def split: Option.bind_splits if_splits)

lemma summarize_link:
  assumes \<open>summarize coerce href from_time to_time response m = Some a\<close>
  shows \<open>a = JObj [(''error'', JStr ''response is empty for the metric'')] \<or>
         Option.bind (get_prop a ''workflow'') (\<lambda>w. get_prop w ''href'') = Some (JStr href)\<close>
proof -
  from assms obtain aggs where \<open>summary_at coerce href aggs m = Some a\<close>
    by (auto simp add: summarize_def split: Option.bind_splits if_splits)
  then show ?thesis by (rule summary_at_link)
qed

lemma flatten_link:
  assumes \<open>flatten coerce href metric from_time to_time response = Some answers\<close>
    and \<open>a \<in> set answers\<close>
  shows \<open>a = JObj [(''error'', JStr ''response is empty for the metric'')] \<or>
         Option.bind (get_prop a ''workflow'') (\<lambda>w. get_prop w ''href'') = Some (JStr href)\<close>
proof -
  from assms(1) have \<open>those (map (summarize coerce href from_time to_time response)
      (fields_of metric)) = Some answers\<close>
    by (simp add: flatten_those)
  from those_Some_set [OF this] assms(2) obtain m
    where \<open>summarize coerce href from_time to_time response m = Some a\<close>
    by blast
  then show ?thesis by (rule summarize_link)
qed

lemma variant_task: \<open>ascii_case_variants ''T2.1'' ''t2.1''\<close>
  by (simp add: ascii_case_variants_def ascii_case_variant_def lower_of_def upper_letters_def
      lower_letters_def)

section \<open>The claims about the handlers\<close>

text \<open>
  C2. For a request with at least one metric name. When both \<open>from\<close> and \<open>to\<close> are
  supplied, the body is the rendering of a query whose only aggregation is the filter
  node \<open>filtered_stats\<close>, holding the type, host and time filters that apply and, nested
  inside it, the three clauses of every metric; the flattener then reads every metric
  from the \<open>filtered_stats\<close> node of the response's aggregations. When neither is
  supplied, the clauses sit at the root of the query, a type filter is the top-level
  query filter, and the flattener reads every metric from the response's aggregations
  themselves.
\<close>

theorem C2_time_range_nesting:
  assumes \<open>fields_of metric \<noteq> []\<close>
  shows \<open>search_body metric type host (Some f) (Some t) =
           render_query \<lparr>top_filter = None,
             aggs_tree = FilterNode ''filtered_stats''
               ((case type of Some x \<Rightarrow> [TypeIs x] | None \<Rightarrow> []) @
                (case host of Some h \<Rightarrow> [HostPrefix h] | None \<Rightarrow> []) @
                [TimestampRange f t])
               (concat (map spec_clauses (fields_of metric)))\<rparr> \<and>
         flatten coerce href metric (Some f) (Some t) response =
           do {
             aggs \<leftarrow> get_prop response ''aggregations'';
             root \<leftarrow> get_prop aggs ''filtered_stats'';
             those (map (summary_at coerce href root) (fields_of metric))
           } \<and>
         search_body metric type host None None =
           render_query \<lparr>top_filter = map_option TypeIs type,
             aggs_tree = PerMetric (concat (map spec_clauses (fields_of metric)))\<rparr> \<and>
         flatten coerce href metric None None response =
           do {
             root \<leftarrow> get_prop response ''aggregations'';
             those (map (summary_at coerce href root) (fields_of metric))
           }\<close>
proof (intro conjI)
  show \<open>search_body metric type host (Some f) (Some t) =
           render_query \<lparr>top_filter = None,
             aggs_tree = FilterNode ''filtered_stats''
               ((case type of Some x \<Rightarrow> [TypeIs x] | None \<Rightarrow> []) @
                (case host of Some h \<Rightarrow> [HostPrefix h] | None \<Rightarrow> []) @
                [TimestampRange f t])
               (concat (map spec_clauses (fields_of metric)))\<rparr>\<close>
    using filtered_body_render [OF assms] by (simp add: search_body_def is_defined_def)
next
  show \<open>search_body metric type host None None =
           render_query \<lparr>top_filter = map_option TypeIs type,
             aggs_tree = PerMetric (concat (map spec_clauses (fields_of metric)))\<rparr>\<close>
    using aggregation_by_render [OF assms] by (simp add: search_body_def is_defined_def)
next
  show \<open>flatten coerce href metric (Some f) (Some t) response =
           do {
             aggs \<leftarrow> get_prop response ''aggregations'';
             root \<leftarrow> get_prop aggs ''filtered_stats'';
             those (map (summary_at coerce href root) (fields_of metric))
           }\<close>
  proof (cases \<open>get_prop response ''aggregations''\<close>)
    case None
    then show ?thesis
      using those_map_None [OF assms] by (simp add: flatten_those summarize_def [abs_def])
  next
    case (Some aggs)
    then show ?thesis
      using those_map_None [OF assms]
      by (cases \<open>get_prop aggs ''filtered_stats''\<close>)
         (simp_all add: flatten_those summarize_def [abs_def] is_defined_def)
  qed
next
  show \<open>flatten coerce href metric None None response =
           do {
             root \<leftarrow> get_prop response ''aggregations'';
             those (map (summary_at coerce href root) (fields_of metric))
           }\<close>
    using those_map_None [OF assms]
    by (cases \<open>get_prop response ''aggregations''\<close>)
       (simp_all add: flatten_those summarize_def [abs_def] is_defined_def)
qed

theorem C2_witness:
  \<open>fields_of (Many [''A'', ''B'']) \<noteq> [] \<and>
   search_body (Many [''A'', ''B'']) (Some ''energy'') (Some ''node01'')
       (Some ''2016-05-10T17:35:57.610'') (Some ''2016-05-10T17:36:57.610'') =
     render_query \<lparr>top_filter = None,
       aggs_tree = FilterNode ''filtered_stats''
         [TypeIs ''energy'', HostPrefix ''node01'',
          TimestampRange ''2016-05-10T17:35:57.610'' ''2016-05-10T17:36:57.610'']
         [(''A_Stats'', ExtendedStats ''A''),
          (''Minimum_A'', TopHits 1 ''A'' Asc),
          (''Maximum_A'', TopHits 1 ''A'' Desc),
          (''B_Stats'', ExtendedStats ''B''),
          (''Minimum_B'', TopHits 1 ''B'' Asc),
          (''Maximum_B'', TopHits 1 ''B'' Desc)]\<rparr> \<and>
   flatten (\<lambda>v. None) ''http://server/mf/workflows/ms2'' (Many [''A'', ''B''])
       (Some ''2016-05-10T17:35:57.610'') (Some ''2016-05-10T17:36:57.610'')
       (JObj [(''aggregations'', JObj [(''filtered_stats'', sample_aggs)])]) =
     those (map (summary_at (\<lambda>v. None) ''http://server/mf/workflows/ms2'' sample_aggs)
              [''A'', ''B'']) \<and>
   search_body (Many [''A'', ''B'']) (Some ''energy'') (Some ''node01'') None None =
     render_query \<lparr>top_filter = Some (TypeIs ''energy''),
       aggs_tree = PerMetric
         [(''A_Stats'', ExtendedStats ''A''),
          (''Minimum_A'', TopHits 1 ''A'' Asc),
          (''Maximum_A'', TopHits 1 ''A'' Desc),
          (''B_Stats'', ExtendedStats ''B''),
          (''Minimum_B'', TopHits 1 ''B'' Asc),
          (''Maximum_B'', TopHits 1 ''B'' Desc)]\<rparr> \<and>
   flatten (\<lambda>v. None) ''http://server/mf/workflows/ms2'' (Many [''A'', ''B'']) None None
       (JObj [(''aggregations'', sample_aggs)]) =
     those (map (summary_at (\<lambda>v. None) ''http://server/mf/workflows/ms2'' sample_aggs)
              [''A'', ''B''])\<close>
  using C2_time_range_nesting [of \<open>Many [''A'', ''B'']\<close> \<open>Some ''energy''\<close> \<open>Some ''node01''\<close>
      \<open>''2016-05-10T17:35:57.610''\<close> \<open>''2016-05-10T17:36:57.610''\<close>
      \<open>\<lambda>v. None\<close> \<open>''http://server/mf/workflows/ms2''\<close>
      \<open>JObj [(''aggregations'', JObj [(''filtered_stats'', sample_aggs)])]\<close>]
    C2_time_range_nesting [of \<open>Many [''A'', ''B'']\<close> \<open>Some ''energy''\<close> \<open>Some ''node01''\<close>
      \<open>''2016-05-10T17:35:57.610''\<close> \<open>''2016-05-10T17:36:57.610''\<close>
      \<open>\<lambda>v. None\<close> \<open>''http://server/mf/workflows/ms2''\<close>
      \<open>JObj [(''aggregations'', sample_aggs)]\<close>]
  by (simp add: spec_clauses_def)

text \<open>
  C3, as the code has it. Let the total hit count of \<open>Minimum_m\<close> be the number \<open>n\<close>.
  If \<open>n\<close> is zero the entry pushed for \<open>m\<close> is the object with the single field
  \<open>error\<close>: it has no \<open>metric\<close>, \<open>workflow\<close>, \<open>statistics\<close>, \<open>min\<close> or \<open>max\<close>
  field. If \<open>n\<close> is not zero the entry has the workflow link, the metric name, the
  block \<open>m_Stats\<close> as \<open>statistics\<close>, the source of the first hit of \<open>Minimum_m\<close> as
  \<open>min\<close> and of \<open>Maximum_m\<close> as \<open>max\<close>, and no \<open>error\<close> field.
\<close>

theorem C3_summary_shape:
  assumes \<open>get_prop aggs (''Minimum_'' @ m) = Some node\<close>
    and \<open>get_prop node ''hits'' = Some hits\<close>
    and \<open>get_prop hits ''total'' = Some (JNum n)\<close>
  shows \<open>(n = 0 \<longrightarrow>
            summary_at coerce href aggs m =
              Some (JObj [(''error'', JStr ''response is empty for the metric'')])) \<and>
         (n \<noteq> 0 \<longrightarrow>
            get_prop aggs (m @ ''_Stats'') = Some statistics \<longrightarrow>
            top_source aggs (''Minimum_'' @ m) = Some minimum \<longrightarrow>
            top_source aggs (''Maximum_'' @ m) = Some maximum \<longrightarrow>
            summary_at coerce href aggs m =
              Some (JObj [(''workflow'', JObj [(''href'', JStr href)]),
                          (''metric'', JStr m),
                          (''statistics'', statistics),
                          (''min'', minimum),
                          (''max'', maximum)]))\<close>
  using assms by (simp add: summary_at_def)

theorem C3_witness:
  \<open>get_prop sample_aggs (''Minimum_'' @ ''B'') =
     Some (JObj [(''hits'', JObj [(''total'', JNum 0), (''hits'', JArr [])])]) \<and>
   get_prop (JObj [(''hits'', JObj [(''total'', JNum 0), (''hits'', JArr [])])]) ''hits'' =
     Some (JObj [(''total'', JNum 0), (''hits'', JArr [])]) \<and>
   get_prop (JObj [(''total'', JNum 0), (''hits'', JArr [])]) ''total'' = Some (JNum 0) \<and>
   summary_at (\<lambda>v. None) ''http://server/mf/workflows/ms2'' sample_aggs ''B'' =
     Some (JObj [(''error'', JStr ''response is empty for the metric'')]) \<and>
   get_prop sample_aggs (''Minimum_'' @ ''A'') =
     Some (JObj [(''hits'', JObj [(''total'', JNum 2),
       (''hits'', JArr [JObj [(''_source'', JObj [(''host'', JStr ''node01''), (''A'', JNum 1)])]])])]) \<and>
   get_prop sample_aggs (''A'' @ ''_Stats'') =
     Some (JObj [(''count'', JNum 2), (''min'', JNum 1), (''max'', JNum 5)]) \<and>
   top_source sample_aggs (''Minimum_'' @ ''A'') =
     Some (JObj [(''host'', JStr ''node01''), (''A'', JNum 1)]) \<and>
   top_source sample_aggs (''Maximum_'' @ ''A'') =
     Some (JObj [(''host'', JStr ''node02''), (''A'', JNum 5)]) \<and>
   summary_at (\<lambda>v. None) ''http://server/mf/workflows/ms2'' sample_aggs ''A'' =
     Some (JObj [(''workflow'', JObj [(''href'', JStr ''http://server/mf/workflows/ms2'')]),
                 (''metric'', JStr ''A''),
                 (''statistics'', JObj [(''count'', JNum 2), (''min'', JNum 1), (''max'', JNum 5)]),
                 (''min'', JObj [(''host'', JStr ''node01''), (''A'', JNum 1)]),
                 (''max'', JObj [(''host'', JStr ''node02''), (''A'', JNum 5)])])\<close>
proof -
  have b1: \<open>get_prop sample_aggs (''Minimum_'' @ ''B'') =
     Some (JObj [(''hits'', JObj [(''total'', JNum 0), (''hits'', JArr [])])])\<close>
    by (simp add: sample_aggs_def)
  have b2: \<open>get_prop (JObj [(''hits'', JObj [(''total'', JNum 0), (''hits'', JArr [])])]) ''hits'' =
     Some (JObj [(''total'', JNum 0), (''hits'', JArr [])])\<close>
    by simp
  have b3: \<open>get_prop (JObj [(''total'', JNum 0), (''hits'', JArr [])]) ''total'' = Some (JNum 0)\<close>
    by simp
  have a1: \<open>get_prop sample_aggs (''Minimum_'' @ ''A'') =
     Some (JObj [(''hits'', JObj [(''total'', JNum 2),
       (''hits'', JArr [JObj [(''_source'', JObj [(''host'', JStr ''node01''), (''A'', JNum 1)])]])])])\<close>
    by (simp add: sample_aggs_def)
  have a2: \<open>get_prop (JObj [(''hits'', JObj [(''total'', JNum 2),
       (''hits'', JArr [JObj [(''_source'', JObj [(''host'', JStr ''node01''), (''A'', JNum 1)])]])])]) ''hits'' =
     Some (JObj [(''total'', JNum 2),
       (''hits'', JArr [JObj [(''_source'', JObj [(''host'', JStr ''node01''), (''A'', JNum 1)])]])])\<close>
    by simp
  have a3: \<open>get_prop (JObj [(''total'', JNum 2),
       (''hits'', JArr [JObj [(''_source'', JObj [(''host'', JStr ''node01''), (''A'', JNum 1)])]])]) ''total'' =
     Some (JNum 2)\<close>
    by simp
  have st: \<open>get_prop sample_aggs (''A'' @ ''_Stats'') =
     Some (JObj [(''count'', JNum 2), (''min'', JNum 1), (''max'', JNum 5)])\<close>
    by (simp add: sample_aggs_def)
  have mn: \<open>top_source sample_aggs (''Minimum_'' @ ''A'') =
     Some (JObj [(''host'', JStr ''node01''), (''A'', JNum 1)])\<close>
    by (simp add: sample_aggs_def top_source_def)
  have mx: \<open>top_source sample_aggs (''Maximum_'' @ ''A'') =
     Some (JObj [(''host'', JStr ''node02''), (''A'', JNum 5)])\<close>
    by (simp add: sample_aggs_def top_source_def)
  show ?thesis
    using C3_summary_shape [OF b1 b2 b3, of \<open>\<lambda>v. None\<close> \<open>''http://server/mf/workflows/ms2''\<close>]
      C3_summary_shape [OF a1 a2 a3, of \<open>\<lambda>v. None\<close> \<open>''http://server/mf/workflows/ms2''\<close>
        \<open>JObj [(''count'', JNum 2), (''min'', JNum 1), (''max'', JNum 5)]\<close>
        \<open>JObj [(''host'', JStr ''node01''), (''A'', JNum 1)]\<close>
        \<open>JObj [(''host'', JStr ''node02''), (''A'', JNum 5)]\<close>]
      b1 b2 b3 a1 st mn mx
    by simp
qed

text \<open>
  The entry for a metric without matching documents does not name the metric: reading
  its \<open>metric\<close> property gives \<open>undefined\<close>.
\<close>

theorem C3_counterexample:
  \<open>summary_at (\<lambda>v. None) ''http://server/mf/workflows/ms2'' sample_aggs ''B'' =
     Some (JObj [(''error'', JStr ''response is empty for the metric'')]) \<and>
   get_prop (JObj [(''error'', JStr ''response is empty for the metric'')]) ''metric'' =
     Some JUndefined\<close>
  by (simp add: summary_at_def sample_aggs_def)

text \<open>
  C4. With a host filter and no time range, the body sent to the store has no filter
  at all: it is the body built without the host. (With a time range the host prefix is
  one of the filters of the \<open>filtered_stats\<close> node, as the theorem for C2 shows.)
\<close>

theorem C4_host_ignored_without_time_range:
  \<open>search_body (Many [''A'', ''B'']) None (Some ''node01'') None None =
     render_query \<lparr>top_filter = None,
       aggs_tree = PerMetric
         [(''A_Stats'', ExtendedStats ''A''),
          (''Minimum_A'', TopHits 1 ''A'' Asc),
          (''Maximum_A'', TopHits 1 ''A'' Desc),
          (''B_Stats'', ExtendedStats ''B''),
          (''Minimum_B'', TopHits 1 ''B'' Asc),
          (''Maximum_B'', TopHits 1 ''B'' Desc)]\<rparr> \<and>
   search_body (Many [''A'', ''B'']) None (Some ''node01'') None None =
     search_body (Many [''A'', ''B'']) None None None None\<close>
  using aggregation_by_render [of \<open>Many [''A'', ''B'']\<close> None]
  by (simp add: search_body_def is_defined_def spec_clauses_def)

text \<open>
  C5. When the flattener returns its list of answers, the list has one entry per
  requested metric name, and the entry at each position is the summary of the metric
  name at that position: the order of the input is kept and a repeated name gives a
  repeated entry. It does return a list whenever every requested metric has a summary.
\<close>

theorem C5_order_preserved:
  \<open>(flatten coerce href metric from_time to_time response = Some answers \<longrightarrow>
      length answers = length (fields_of metric) \<and>
      (\<forall>i < length (fields_of metric).
         summarize coerce href from_time to_time response (fields_of metric ! i) =
           Some (answers ! i))) \<and>
    ((\<forall>m \<in> set (fields_of metric).
        summarize coerce href from_time to_time response m \<noteq> None) \<longrightarrow>
      flatten coerce href metric from_time to_time response \<noteq> None)\<close>
  using those_Some_nth [of \<open>summarize coerce href from_time to_time response\<close>
      \<open>fields_of metric\<close> answers]
    those_map_total [of \<open>fields_of metric\<close> \<open>summarize coerce href from_time to_time response\<close>]
  by (simp add: flatten_those)

theorem C5_witness:
  \<open>flatten (\<lambda>v. None) ''http://server/mf/workflows/ms2'' (Many [''A'', ''B'', ''A'']) None None
       (JObj [(''aggregations'', sample_aggs)]) =
     Some [JObj [(''workflow'', JObj [(''href'', JStr ''http://server/mf/workflows/ms2'')]),
                 (''metric'', JStr ''A''),
                 (''statistics'', JObj [(''count'', JNum 2), (''min'', JNum 1), (''max'', JNum 5)]),
                 (''min'', JObj [(''host'', JStr ''node01''), (''A'', JNum 1)]),
                 (''max'', JObj [(''host'', JStr ''node02''), (''A'', JNum 5)])],
           JObj [(''error'', JStr ''response is empty for the metric'')],
           JObj [(''workflow'', JObj [(''href'', JStr ''http://server/mf/workflows/ms2'')]),
                 (''metric'', JStr ''A''),
                 (''statistics'', JObj [(''count'', JNum 2), (''min'', JNum 1), (''max'', JNum 5)]),
                 (''min'', JObj [(''host'', JStr ''node01''), (''A'', JNum 1)]),
                 (''max'', JObj [(''host'', JStr ''node02''), (''A'', JNum 5)])]] \<and>
   length (fields_of (Many [''A'', ''B'', ''A''])) = 3 \<and>
   summarize (\<lambda>v. None) ''http://server/mf/workflows/ms2'' None None
       (JObj [(''aggregations'', sample_aggs)]) (fields_of (Many [''A'', ''B'', ''A'']) ! 1) =
     Some (JObj [(''error'', JStr ''response is empty for the metric'')]) \<and>
   summarize (\<lambda>v. None) ''http://server/mf/workflows/ms2'' None None
       (JObj [(''aggregations'', sample_aggs)]) (fields_of (Many [''A'', ''B'', ''A'']) ! 2) =
     Some (JObj [(''workflow'', JObj [(''href'', JStr ''http://server/mf/workflows/ms2'')]),
                 (''metric'', JStr ''A''),
                 (''statistics'', JObj [(''count'', JNum 2), (''min'', JNum 1), (''max'', JNum 5)]),
                 (''min'', JObj [(''host'', JStr ''node01''), (''A'', JNum 1)]),
                 (''max'', JObj [(''host'', JStr ''node02''), (''A'', JNum 5)])])\<close>
proof -
  note run = sample_flatten [of \<open>\<lambda>v. None\<close> \<open>''http://server/mf/workflows/ms2''\<close>]
  note ordered = C5_order_preserved [THEN conjunct1, THEN mp, OF run]
  then have nth: \<open>i < 3 \<Longrightarrow>
      summarize (\<lambda>v. None) ''http://server/mf/workflows/ms2'' None None
        (JObj [(''aggregations'', sample_aggs)]) (fields_of (Many [''A'', ''B'', ''A'']) ! i) =
      Some ([JObj [(''workflow'', JObj [(''href'', JStr ''http://server/mf/workflows/ms2'')]),
                 (''metric'', JStr ''A''),
                 (''statistics'', JObj [(''count'', JNum 2), (''min'', JNum 1), (''max'', JNum 5)]),
                 (''min'', JObj [(''host'', JStr ''node01''), (''A'', JNum 1)]),
                 (''max'', JObj [(''host'', JStr ''node02''), (''A'', JNum 5)])],
           JObj [(''error'', JStr ''response is empty for the metric'')],
           JObj [(''workflow'', JObj [(''href'', JStr ''http://server/mf/workflows/ms2'')]),
                 (''metric'', JStr ''A''),
                 (''statistics'', JObj [(''count'', JNum 2), (''min'', JNum 1), (''max'', JNum 5)]),
                 (''min'', JObj [(''host'', JStr ''node01''), (''A'', JNum 1)]),
                 (''max'', JObj [(''host'', JStr ''node02''), (''A'', JNum 5)])]] ! i)\<close> for i
    by simp
  from ordered have len: \<open>length (fields_of (Many [''A'', ''B'', ''A''])) = 3\<close>
    by simp
  show ?thesis
    using run len nth [of 1] nth [of 2] by simp
qed

text \<open>
  C6. When exactly one of \<open>from\<close> and \<open>to\<close> is supplied, the body is the one built by
  \<open>aggregation_by\<close> alone, the same as with neither supplied; the flattener returns what
  it returns with neither supplied; and so does the whole handler.
\<close>

theorem C6_single_bound_ignored:
  assumes \<open>is_defined from_time \<noteq> is_defined to_time\<close>
  shows \<open>search_body metric type host from_time to_time = aggregation_by metric type \<and>
         search_body metric type host from_time to_time = search_body metric type host None None \<and>
         flatten coerce href metric from_time to_time response =
           flatten coerce href metric None None response \<and>
         handle_response toLowerCase coerce elastic mf_server
             (req\<lparr>query_from := from_time, query_to := to_time\<rparr>) index type =
           handle_response toLowerCase coerce elastic mf_server
             (req\<lparr>query_from := None, query_to := None\<rparr>) index type\<close>
proof -
  from assms have one: \<open>\<not> (is_defined from_time \<and> is_defined to_time)\<close>
    by auto
  have body: \<open>search_body metric type host from_time to_time = aggregation_by metric type\<close> for metric host
    using one by (auto simp add: search_body_def)
  have body0: \<open>search_body metric type host None None = aggregation_by metric type\<close> for metric host
    by (simp add: search_body_def is_defined_def)
  have flat: \<open>flatten coerce href metric from_time to_time response =
              flatten coerce href metric None None response\<close> for href metric response
    using one by (auto simp add: flatten_def summarize_def [abs_def] is_defined_def)
  show ?thesis
  proof -
    have range: \<open>(is_defined from_time \<and> is_defined to_time) = False\<close>
      using one by simp
    have none: \<open>is_defined (None :: string option) = False\<close>
      by (simp add: is_defined_def)
    show ?thesis
      by (simp add: body body0 flat range none handle_response_def Let_def case_prod_beta)
  qed
qed

theorem C6_witness:
  \<open>is_defined (Some ''2016-05-10T17:35:57.610'') \<noteq> is_defined (None :: string option) \<and>
   search_body (Many [''A'']) None (Some ''node01'') (Some ''2016-05-10T17:35:57.610'') None =
     aggregation_by (Many [''A'']) None \<and>
   flatten (\<lambda>v. None) ''http://server/mf/workflows/ms2'' (Many [''A''])
       (Some ''2016-05-10T17:35:57.610'') None (JObj [(''aggregations'', sample_aggs)]) =
     flatten (\<lambda>v. None) ''http://server/mf/workflows/ms2'' (Many [''A'']) None None
       (JObj [(''aggregations'', sample_aggs)]) \<and>
   handle_response ascii_lower (\<lambda>v. None) (sample_client (JObj [(''aggregations'', sample_aggs)]))
       ''http://server'' (sample_request\<lparr>query_from := Some ''2016-05-10T17:35:57.610'',
                                           query_to := None\<rparr>) ''ms2_*'' None =
     handle_response ascii_lower (\<lambda>v. None) (sample_client (JObj [(''aggregations'', sample_aggs)]))
       ''http://server'' (sample_request\<lparr>query_from := None, query_to := None\<rparr>) ''ms2_*'' None\<close>
proof -
  have one: \<open>is_defined (Some ''2016-05-10T17:35:57.610'') \<noteq> is_defined (None :: string option)\<close>
    by (simp add: is_defined_def)
  show ?thesis
    using one
      C6_single_bound_ignored [OF one, of \<open>Many [''A'']\<close> None \<open>Some ''node01''\<close> \<open>\<lambda>v. None\<close>
        \<open>''http://server/mf/workflows/ms2''\<close> \<open>JObj [(''aggregations'', sample_aggs)]\<close>
        ascii_lower \<open>sample_client (JObj [(''aggregations'', sample_aggs)])\<close> \<open>''http://server''\<close>
        sample_request \<open>''ms2_*''\<close>]
    by simp
qed

text \<open>
  C7, as the code has it. The query builder has no failure: for a request whose metric
  parameter is an empty list, if refreshing the index reports no error, the handler
  goes on to search the store with the body the builder returned.
\<close>

theorem C7_empty_list_is_sent:
  assumes \<open>query_metric req = Many []\<close>
    and \<open>\<not> truthy (indices_refresh elastic index)\<close>
  shows \<open>fst (handle_response toLowerCase coerce elastic mf_server req index type) =
           [Refresh index,
            Search index (search_body (Many []) type (query_host req) (query_from req) (query_to req))]\<close>
  using assms
  by (simp add: handle_response_def search_body_def metric_is_defined_def Let_def flatten_def
      split: prod.splits)

theorem C7_witness:
  \<open>query_metric (sample_request\<lparr>query_metric := Many []\<rparr>) = Many [] \<and>
   \<not> truthy (indices_refresh (sample_client JUndefined) ''ms2_*'') \<and>
   fst (handle_response ascii_lower (\<lambda>v. None) (sample_client JUndefined) ''http://server''
          (sample_request\<lparr>query_metric := Many []\<rparr>) ''ms2_*'' None) =
     [Refresh ''ms2_*'', Search ''ms2_*'' (search_body (Many []) None None None None)]\<close>
proof -
  have m: \<open>query_metric (sample_request\<lparr>query_metric := Many []\<rparr>) = Many []\<close>
    by simp
  have r: \<open>\<not> truthy (indices_refresh (sample_client JUndefined) ''ms2_*'')\<close>
    by (simp add: sample_client_def)
  show ?thesis
    using m r C7_empty_list_is_sent [OF m r, of ascii_lower \<open>\<lambda>v. None\<close> \<open>''http://server''\<close> None]
    by (simp add: sample_client_def sample_request_def)
qed

text \<open>
  The builder returns a string for the empty list, and the handler sends it to the
  store and replies with the (empty) list of answers.
\<close>

theorem C7_counterexample:
  \<open>aggregation_by (Many []) None = ''{"aggs": }}'' \<and>
   handle_response ascii_lower (\<lambda>v. None) (sample_client JUndefined) ''http://server''
       (sample_request\<lparr>query_metric := Many []\<rparr>) ''ms2_*'' None =
     ([Refresh ''ms2_*'', Search ''ms2_*'' ''{"aggs": }}''],
      Some \<lparr>status = 200, json = JArr []\<rparr>)\<close>
  by (simp add: aggregation_by_def type_filter_def slice_drop_last handle_response_def
      metric_is_defined_def search_body_def is_defined_def sample_client_def sample_request_def
      flatten_def Let_def)

text \<open>
  C8. When the \<open>metric\<close> parameter is absent, the handler (and so each of the three
  statistics routes) makes no call to the store and replies, with status 200, the
  object whose \<open>error\<close> holds the message \<open>parameter metric is missing\<close>.
\<close>

theorem C8_missing_metric:
  assumes \<open>query_metric req = Absent\<close>
  shows \<open>handle_response toLowerCase coerce elastic mf_server req index type =
           ([], Some \<lparr>status = 200,
                      json = JObj [(''error'',
                               JObj [(''message'', JStr ''parameter metric is missing'')])]\<rparr>) \<and>
         stats_workflow toLowerCase coerce elastic mf_server req =
           ([], Some \<lparr>status = 200,
                      json = JObj [(''error'',
                               JObj [(''message'', JStr ''parameter metric is missing'')])]\<rparr>) \<and>
         stats_task toLowerCase coerce elastic mf_server req =
           ([], Some \<lparr>status = 200,
                      json = JObj [(''error'',
                               JObj [(''message'', JStr ''parameter metric is missing'')])]\<rparr>) \<and>
         stats_experiment toLowerCase coerce elastic mf_server req =
           ([], Some \<lparr>status = 200,
                      json = JObj [(''error'',
                               JObj [(''message'', JStr ''parameter metric is missing'')])]\<rparr>)\<close>
  using assms
  by (simp add: handle_response_def stats_workflow_def stats_task_def stats_experiment_def
      metric_is_defined_def Let_def)

theorem C8_witness:
  \<open>query_metric (sample_request\<lparr>query_metric := Absent\<rparr>) = Absent \<and>
   stats_workflow ascii_lower (\<lambda>v. None) (sample_client JUndefined) ''http://server''
       (sample_request\<lparr>query_metric := Absent\<rparr>) =
     ([], Some \<lparr>status = 200,
                json = JObj [(''error'',
                         JObj [(''message'', JStr ''parameter metric is missing'')])]\<rparr>)\<close>
proof -
  have m: \<open>query_metric (sample_request\<lparr>query_metric := Absent\<rparr>) = Absent\<close>
    by simp
  show ?thesis
    using m C8_missing_metric [OF m, of ascii_lower \<open>\<lambda>v. None\<close> \<open>sample_client JUndefined\<close> \<open>''http://server''\<close>]
    by simp
qed

text \<open>
  C9. The \<open>PUT\<close> handlers compare the error they get from the store with the string
  \<open>'undefined'\<close>. The store passes \<open>undefined\<close> or an error object, never that string,
  so whatever it passes the reply is the link to the resource with status 200, and the
  branch that sets status 500 is not taken.
\<close>

theorem C9_put_never_reports_failure:
  assumes \<open>fst (index_doc elastic ''mf'' ''configurations'' (toLowerCase platformID) doc) \<noteq>
             JStr ''undefined''\<close>
    and \<open>fst (index_doc elastic ''mf'' ''workflows'' (toLowerCase wid) doc) \<noteq> JStr ''undefined''\<close>
  shows \<open>put_config toLowerCase elastic mf_server platformID doc =
           ([Index ''mf'' ''configurations'' (toLowerCase platformID) doc],
            Some \<lparr>status = 200,
                   json = JObj [(''href'',
                            JStr (mf_server @ ''/mf/configs/'' @ toLowerCase platformID))]\<rparr>) \<and>
         put_workflow toLowerCase elastic mf_server wid doc =
           ([Index ''mf'' ''workflows'' (toLowerCase wid) doc],
            Some \<lparr>status = 200,
                   json = JObj [(''href'',
                            JStr (mf_server @ ''/mf/workflows/'' @ toLowerCase wid))]\<rparr>)\<close>
  using assms by (simp add: put_config_def put_workflow_def Let_def case_prod_beta)

theorem C9_witness:
  \<open>fst (index_doc (sample_client JUndefined) ''mf'' ''configurations'' (ascii_lower ''Node01'')
          (JObj [(''status'', JStr ''on'')])) =
     JObj [(''message'', JStr ''No Living connections'')] \<and>
   JObj [(''message'', JStr ''No Living connections'')] \<noteq> JStr ''undefined'' \<and>
   put_config ascii_lower (sample_client JUndefined) ''http://server'' ''Node01''
       (JObj [(''status'', JStr ''on'')]) =
     ([Index ''mf'' ''configurations'' ''node01'' (JObj [(''status'', JStr ''on'')])],
      Some \<lparr>status = 200, json = JObj [(''href'', JStr ''http://server/mf/configs/node01'')]\<rparr>) \<and>
   put_workflow ascii_lower (sample_client JUndefined) ''http://server'' ''Node01''
       (JObj [(''status'', JStr ''on'')]) =
     ([Index ''mf'' ''workflows'' ''node01'' (JObj [(''status'', JStr ''on'')])],
      Some \<lparr>status = 200, json = JObj [(''href'', JStr ''http://server/mf/workflows/node01'')]\<rparr>)\<close>
proof -
  have e: \<open>fst (index_doc (sample_client JUndefined) i t d b) \<noteq> JStr ''undefined''\<close> for i t d b
    by (simp add: sample_client_def)
  show ?thesis
    using C9_put_never_reports_failure [of \<open>sample_client JUndefined\<close> ascii_lower \<open>''Node01''\<close>
        \<open>JObj [(''status'', JStr ''on'')]\<close> \<open>''Node01''\<close> \<open>''http://server''\<close>, OF e e]
    by (simp add: ascii_lower_sample sample_client_def)
qed

text \<open>
  C10. Every handler that takes an identifier from the path applies \<open>toLowerCase\<close> to
  it before using it. A statistics request with a metric refreshes and searches the
  index built from the lower-cased workflow and task identifiers, and every summary it
  returns links to the workflow under its lower-cased identifier. The configuration
  and workflow handlers read and write the document whose id is the lower-cased
  identifier, and the link a \<open>PUT\<close> returns ends in the lower-cased identifier. So two
  requests whose identifiers have the same lower-case form, as identifiers that differ
  only in letter case have, make the same calls to the store and get the same reply.
\<close>

theorem C10_identifiers_lower_cased:
  assumes \<open>metric_is_defined (query_metric req)\<close>
    and \<open>toLowerCase w = toLowerCase w'\<close>
    and \<open>toLowerCase t = toLowerCase t'\<close>
  shows \<open>(let index = toLowerCase w @ ''_*'';
              body = search_body (query_metric req) None (query_host req) (query_from req)
                       (query_to req);
              run = stats_workflow toLowerCase coerce elastic mf_server
                      (req\<lparr>param_workflowID := w\<rparr>)
          in fst run =
               (if truthy (indices_refresh elastic index) then [Refresh index]
                else [Refresh index, Search index body]) \<and>
             (\<not> truthy (indices_refresh elastic index) \<longrightarrow>
              \<not> truthy (fst (search elastic index body)) \<longrightarrow>
              snd run =
                map_option (\<lambda>answers. \<lparr>status = 200, json = JArr answers\<rparr>)
                  (flatten coerce (mf_server @ ''/mf/workflows/'' @ toLowerCase w)
                     (query_metric req) (query_from req) (query_to req)
                     (snd (search elastic index body))))) \<and>
         (let index = toLowerCase w @ ''_'' @ toLowerCase t;
              body = search_body (query_metric req) None (query_host req) (query_from req)
                       (query_to req);
              run = stats_task toLowerCase coerce elastic mf_server
                      (req\<lparr>param_workflowID := w, param_taskID := t\<rparr>)
          in fst run =
               (if truthy (indices_refresh elastic index) then [Refresh index]
                else [Refresh index, Search index body]) \<and>
             (\<not> truthy (indices_refresh elastic index) \<longrightarrow>
              \<not> truthy (fst (search elastic index body)) \<longrightarrow>
              snd run =
                map_option (\<lambda>answers. \<lparr>status = 200, json = JArr answers\<rparr>)
                  (flatten coerce (mf_server @ ''/mf/workflows/'' @ toLowerCase w)
                     (query_metric req) (query_from req) (query_to req)
                     (snd (search elastic index body))))) \<and>
         (let index = toLowerCase w @ ''_'' @ toLowerCase t;
              body = search_body (query_metric req) (Some (param_experimentID req))
                       (query_host req) (query_from req) (query_to req);
              run = stats_experiment toLowerCase coerce elastic mf_server
                      (req\<lparr>param_workflowID := w, param_taskID := t\<rparr>)
          in fst run =
               (if truthy (indices_refresh elastic index) then [Refresh index]
                else [Refresh index, Search index body]) \<and>
             (\<not> truthy (indices_refresh elastic index) \<longrightarrow>
              \<not> truthy (fst (search elastic index body)) \<longrightarrow>
              snd run =
                map_option (\<lambda>answers. \<lparr>status = 200, json = JArr answers\<rparr>)
                  (flatten coerce (mf_server @ ''/mf/workflows/'' @ toLowerCase w)
                     (query_metric req) (query_from req) (query_to req)
                     (snd (search elastic index body))))) \<and>
         (flatten coerce href metric from_time to_time response = Some answers \<longrightarrow>
            (\<forall>a \<in> set answers.
               a = JObj [(''error'', JStr ''response is empty for the metric'')] \<or>
               Option.bind (get_prop a ''workflow'') (\<lambda>v. get_prop v ''href'') =
                 Some (JStr href))) \<and>
         fst (get_config toLowerCase elastic w) =
           [Get ''mf'' ''configurations'' (toLowerCase w)] \<and>
         fst (get_workflow toLowerCase elastic w) = [Get ''mf'' ''workflows'' (toLowerCase w)] \<and>
         fst (put_config toLowerCase elastic mf_server w doc) =
           [Index ''mf'' ''configurations'' (toLowerCase w) doc] \<and>
         fst (put_workflow toLowerCase elastic mf_server w doc) =
           [Index ''mf'' ''workflows'' (toLowerCase w) doc] \<and>
         (fst (index_doc elastic ''mf'' ''configurations'' (toLowerCase w) doc) \<noteq>
            JStr ''undefined'' \<longrightarrow>
          snd (put_config toLowerCase elastic mf_server w doc) =
            Some \<lparr>status = 200,
                   json = JObj [(''href'', JStr (mf_server @ ''/mf/configs/'' @ toLowerCase w))]\<rparr>) \<and>
         (fst (index_doc elastic ''mf'' ''workflows'' (toLowerCase w) doc) \<noteq> JStr ''undefined'' \<longrightarrow>
          snd (put_workflow toLowerCase elastic mf_server w doc) =
            Some \<lparr>status = 200,
                   json = JObj [(''href'',
                            JStr (mf_server @ ''/mf/workflows/'' @ toLowerCase w))]\<rparr>) \<and>
         stats_workflow toLowerCase coerce elastic mf_server (req\<lparr>param_workflowID := w\<rparr>) =
           stats_workflow toLowerCase coerce elastic mf_server (req\<lparr>param_workflowID := w'\<rparr>) \<and>
         stats_task toLowerCase coerce elastic mf_server
             (req\<lparr>param_workflowID := w, param_taskID := t\<rparr>) =
           stats_task toLowerCase coerce elastic mf_server
             (req\<lparr>param_workflowID := w', param_taskID := t'\<rparr>) \<and>
         stats_experiment toLowerCase coerce elastic mf_server
             (req\<lparr>param_workflowID := w, param_taskID := t\<rparr>) =
           stats_experiment toLowerCase coerce elastic mf_server
             (req\<lparr>param_workflowID := w', param_taskID := t'\<rparr>) \<and>
         get_config toLowerCase elastic w = get_config toLowerCase elastic w' \<and>
         put_config toLowerCase elastic mf_server w doc =
           put_config toLowerCase elastic mf_server w' doc \<and>
         get_workflow toLowerCase elastic w = get_workflow toLowerCase elastic w' \<and>
         put_workflow toLowerCase elastic mf_server w doc =
           put_workflow toLowerCase elastic mf_server w' doc\<close>
proof -
  have calls: \<open>fst (handle_response toLowerCase coerce elastic mf_server
                      (req\<lparr>param_workflowID := w, param_taskID := x\<rparr>) index type) =
                 (if truthy (indices_refresh elastic index) then [Refresh index]
                  else [Refresh index,
                        Search index (search_body (query_metric req) type (query_host req)
                          (query_from req) (query_to req))])\<close> for x index type
    using assms(1) by (simp add: handle_response_def search_body_def Let_def case_prod_beta)
  have answers: \<open>snd (handle_response toLowerCase coerce elastic mf_server
                      (req\<lparr>param_workflowID := w, param_taskID := x\<rparr>) index type) =
      map_option (\<lambda>answers. \<lparr>status = 200, json = JArr answers\<rparr>)
        (flatten coerce (mf_server @ ''/mf/workflows/'' @ toLowerCase w)
           (query_metric req) (query_from req) (query_to req)
           (snd (search elastic index
              (search_body (query_metric req) type (query_host req) (query_from req)
                 (query_to req)))))\<close>
    if \<open>\<not> truthy (indices_refresh elastic index)\<close>
      and \<open>\<not> truthy (fst (search elastic index
            (search_body (query_metric req) type (query_host req) (query_from req)
               (query_to req))))\<close>
    for x index type
    using assms(1) that
    by (simp add: handle_response_def search_body_def Let_def case_prod_beta)
  have same: \<open>handle_response toLowerCase coerce elastic mf_server
                 (req\<lparr>param_workflowID := w, param_taskID := x\<rparr>) index type =
               handle_response toLowerCase coerce elastic mf_server
                 (req\<lparr>param_workflowID := w', param_taskID := y\<rparr>) index type\<close> for x y index type
    using assms(2) by (simp add: handle_response_def Let_def case_prod_beta)
  have routes:
    \<open>stats_workflow toLowerCase coerce elastic mf_server (req\<lparr>param_workflowID := w\<rparr>) =
       handle_response toLowerCase coerce elastic mf_server
         (req\<lparr>param_workflowID := w, param_taskID := param_taskID req\<rparr>)
         (toLowerCase w @ ''_*'') None\<close>
    \<open>stats_workflow toLowerCase coerce elastic mf_server (req\<lparr>param_workflowID := w'\<rparr>) =
       handle_response toLowerCase coerce elastic mf_server
         (req\<lparr>param_workflowID := w', param_taskID := param_taskID req\<rparr>)
         (toLowerCase w @ ''_*'') None\<close>
    \<open>stats_task toLowerCase coerce elastic mf_server
         (req\<lparr>param_workflowID := w, param_taskID := t\<rparr>) =
       handle_response toLowerCase coerce elastic mf_server
         (req\<lparr>param_workflowID := w, param_taskID := t\<rparr>)
         (toLowerCase w @ ''_'' @ toLowerCase t) None\<close>
    \<open>stats_task toLowerCase coerce elastic mf_server
         (req\<lparr>param_workflowID := w', param_taskID := t'\<rparr>) =
       handle_response toLowerCase coerce elastic mf_server
         (req\<lparr>param_workflowID := w', param_taskID := t'\<rparr>)
         (toLowerCase w @ ''_'' @ toLowerCase t) None\<close>
    \<open>stats_experiment toLowerCase coerce elastic mf_server
         (req\<lparr>param_workflowID := w, param_taskID := t\<rparr>) =
       handle_response toLowerCase coerce elastic mf_server
         (req\<lparr>param_workflowID := w, param_taskID := t\<rparr>)
         (toLowerCase w @ ''_'' @ toLowerCase t) (Some (param_experimentID req))\<close>
    \<open>stats_experiment toLowerCase coerce elastic mf_server
         (req\<lparr>param_workflowID := w', param_taskID := t'\<rparr>) =
       handle_response toLowerCase coerce elastic mf_server
         (req\<lparr>param_workflowID := w', param_taskID := t'\<rparr>)
         (toLowerCase w @ ''_'' @ toLowerCase t) (Some (param_experimentID req))\<close>
    using assms(2,3)
    by (simp_all add: stats_workflow_def stats_task_def stats_experiment_def Let_def)
  have link: \<open>flatten coerce href metric from_time to_time response = Some answers \<longrightarrow>
            (\<forall>a \<in> set answers.
               a = JObj [(''error'', JStr ''response is empty for the metric'')] \<or>
               Option.bind (get_prop a ''workflow'') (\<lambda>v. get_prop v ''href'') =
                 Some (JStr href))\<close>
    using flatten_link by blast
  have docs:
    \<open>get_config toLowerCase elastic w = get_config toLowerCase elastic w'\<close>
    \<open>put_config toLowerCase elastic mf_server w doc = put_config toLowerCase elastic mf_server w' doc\<close>
    \<open>get_workflow toLowerCase elastic w = get_workflow toLowerCase elastic w'\<close>
    \<open>put_workflow toLowerCase elastic mf_server w doc =
       put_workflow toLowerCase elastic mf_server w' doc\<close>
    using assms(2)
    by (simp_all add: get_config_def put_config_def get_workflow_def put_workflow_def)
  have ids:
    \<open>fst (get_config toLowerCase elastic w) = [Get ''mf'' ''configurations'' (toLowerCase w)]\<close>
    \<open>fst (get_workflow toLowerCase elastic w) = [Get ''mf'' ''workflows'' (toLowerCase w)]\<close>
    \<open>fst (put_config toLowerCase elastic mf_server w doc) =
       [Index ''mf'' ''configurations'' (toLowerCase w) doc]\<close>
    \<open>fst (put_workflow toLowerCase elastic mf_server w doc) =
       [Index ''mf'' ''workflows'' (toLowerCase w) doc]\<close>
    by (simp_all add: get_config_def put_config_def get_workflow_def put_workflow_def Let_def
        case_prod_beta)
  have hrefs:
    \<open>fst (index_doc elastic ''mf'' ''configurations'' (toLowerCase w) doc) \<noteq>
        JStr ''undefined'' \<longrightarrow>
      snd (put_config toLowerCase elastic mf_server w doc) =
        Some \<lparr>status = 200,
               json = JObj [(''href'', JStr (mf_server @ ''/mf/configs/'' @ toLowerCase w))]\<rparr>\<close>
    \<open>fst (index_doc elastic ''mf'' ''workflows'' (toLowerCase w) doc) \<noteq> JStr ''undefined'' \<longrightarrow>
      snd (put_workflow toLowerCase elastic mf_server w doc) =
        Some \<lparr>status = 200,
               json = JObj [(''href'', JStr (mf_server @ ''/mf/workflows/'' @ toLowerCase w))]\<rparr>\<close>
    by (simp_all add: put_config_def put_workflow_def Let_def case_prod_beta)
  have r1: \<open>req\<lparr>param_workflowID := w\<rparr> =
            req\<lparr>param_workflowID := w, param_taskID := param_taskID req\<rparr>\<close>
    by simp
  show ?thesis
    unfolding Let_def
    apply (intro conjI impI)
    subgoal by (simp only: routes calls)
    subgoal by (simp only: routes) (rule answers)
    subgoal by (simp only: routes calls)
    subgoal by (simp only: routes) (rule answers)
    subgoal by (simp only: routes calls)
    subgoal by (simp only: routes) (rule answers)
    subgoal using link by blast
    subgoal by (rule ids)
    subgoal by (rule ids)
    subgoal by (rule ids)
    subgoal by (rule ids)
    subgoal using hrefs(1) by blast
    subgoal using hrefs(2) by blast
    subgoal by (simp only: routes same)
    subgoal by (simp only: routes same)
    subgoal by (simp only: routes same)
    subgoal by (rule docs)
    subgoal by (rule docs)
    subgoal by (rule docs)
    subgoal by (rule docs)
    done
qed

theorem C10_witness:
  \<open>metric_is_defined (query_metric sample_request) \<and>
   ascii_lower ''MS2'' = ascii_lower ''ms2'' \<and>
   ascii_lower ''T2.1'' = ascii_lower ''t2.1'' \<and>
   ascii_lower ''MS2'' = ''ms2'' \<and>
   ascii_lower ''T2.1'' = ''t2.1'' \<and>
   fst (stats_task ascii_lower (\<lambda>v. None) (sample_client (JObj [(''aggregations'', sample_aggs)]))
          ''http://server'' (sample_request\<lparr>param_workflowID := ''MS2'', param_taskID := ''T2.1''\<rparr>)) =
     [Refresh ''ms2_t2.1'',
      Search ''ms2_t2.1'' (search_body (Many [''A'', ''B'', ''A'']) None None None None)] \<and>
   snd (stats_workflow ascii_lower (\<lambda>v. None) (sample_client (JObj [(''aggregations'', sample_aggs)]))
          ''http://server'' (sample_request\<lparr>param_workflowID := ''MS2''\<rparr>)) =
     Some \<lparr>status = 200, json = JArr
       [JObj [(''workflow'', JObj [(''href'', JStr ''http://server/mf/workflows/ms2'')]),
              (''metric'', JStr ''A''),
              (''statistics'', JObj [(''count'', JNum 2), (''min'', JNum 1), (''max'', JNum 5)]),
              (''min'', JObj [(''host'', JStr ''node01''), (''A'', JNum 1)]),
              (''max'', JObj [(''host'', JStr ''node02''), (''A'', JNum 5)])],
        JObj [(''error'', JStr ''response is empty for the metric'')],
        JObj [(''workflow'', JObj [(''href'', JStr ''http://server/mf/workflows/ms2'')]),
              (''metric'', JStr ''A''),
              (''statistics'', JObj [(''count'', JNum 2), (''min'', JNum 1), (''max'', JNum 5)]),
              (''min'', JObj [(''host'', JStr ''node01''), (''A'', JNum 1)]),
              (''max'', JObj [(''host'', JStr ''node02''), (''A'', JNum 5)])]]\<rparr> \<and>
   stats_task ascii_lower (\<lambda>v. None) (sample_client (JObj [(''aggregations'', sample_aggs)]))
       ''http://server'' (sample_request\<lparr>param_workflowID := ''MS2'', param_taskID := ''T2.1''\<rparr>) =
     stats_task ascii_lower (\<lambda>v. None) (sample_client (JObj [(''aggregations'', sample_aggs)]))
       ''http://server'' (sample_request\<lparr>param_workflowID := ''ms2'', param_taskID := ''t2.1''\<rparr>) \<and>
   fst (get_config ascii_lower (sample_client (JObj [(''aggregations'', sample_aggs)])) ''MS2'') =
     [Get ''mf'' ''configurations'' ''ms2''] \<and>
   snd (put_workflow ascii_lower (sample_client (JObj [(''aggregations'', sample_aggs)]))
          ''http://server'' ''MS2'' JNull) =
     Some \<lparr>status = 200, json = JObj [(''href'', JStr ''http://server/mf/workflows/ms2'')]\<rparr>\<close>
proof -
  let ?client = \<open>sample_client (JObj [(''aggregations'', sample_aggs)])\<close>
  have m: \<open>metric_is_defined (query_metric sample_request)\<close>
    by (simp add: sample_request_def metric_is_defined_def)
  have w: \<open>ascii_lower ''MS2'' = ascii_lower ''ms2''\<close>
    by (rule ascii_lower_variant [OF variant_sample])
  have t: \<open>ascii_lower ''T2.1'' = ascii_lower ''t2.1''\<close>
    by (rule ascii_lower_variant [OF variant_task])
  have lw: \<open>ascii_lower ''MS2'' = ''ms2''\<close>
    by (simp add: ascii_lower_def lower_char_def lower_of_def upper_letters_def lower_letters_def)
  have lt: \<open>ascii_lower ''T2.1'' = ''t2.1''\<close>
    by (simp add: ascii_lower_def lower_char_def lower_of_def upper_letters_def lower_letters_def)
  note all = C10_identifiers_lower_cased [where toLowerCase = ascii_lower
      and req = sample_request and w = \<open>''MS2''\<close> and w' = \<open>''ms2''\<close>
      and t = \<open>''T2.1''\<close> and t' = \<open>''t2.1''\<close> and coerce = \<open>\<lambda>v. None\<close>
      and elastic = ?client and mf_server = \<open>''http://server''\<close>
      and href = \<open>''http://server/mf/workflows/ms2''\<close> and metric = \<open>Many [''A'', ''B'', ''A'']\<close>
      and from_time = None and to_time = None
      and response = \<open>JObj [(''aggregations'', sample_aggs)]\<close> and answers = \<open>[]\<close>
      and doc = JNull, OF m w t, unfolded Let_def]
  have quiet: \<open>\<not> truthy (indices_refresh ?client i)\<close> \<open>\<not> truthy (fst (search ?client i b))\<close>
    \<open>snd (search ?client i b) = JObj [(''aggregations'', sample_aggs)]\<close>
    \<open>fst (index_doc ?client i ty d doc) \<noteq> JStr ''undefined''\<close> for i b ty d doc
    by (simp_all add: sample_client_def)
  have fields: \<open>query_metric sample_request = Many [''A'', ''B'', ''A'']\<close>
    \<open>query_host sample_request = None\<close> \<open>query_from sample_request = None\<close>
    \<open>query_to sample_request = None\<close>
    by (simp_all add: sample_request_def)
  from all [THEN conjunct2, THEN conjunct1] have c1: \<open>fst (stats_task ascii_lower (\<lambda>v. None) ?client ''http://server''
        (sample_request\<lparr>param_workflowID := ''MS2'', param_taskID := ''T2.1''\<rparr>)) =
     [Refresh ''ms2_t2.1'',
      Search ''ms2_t2.1'' (search_body (Many [''A'', ''B'', ''A'']) None None None None)]\<close>
    by (simp add: quiet fields lw lt)
  from all [THEN conjunct1] have c2: \<open>snd (stats_workflow ascii_lower (\<lambda>v. None) ?client ''http://server''
        (sample_request\<lparr>param_workflowID := ''MS2''\<rparr>)) =
      map_option (\<lambda>answers. \<lparr>status = 200, json = JArr answers\<rparr>)
        (flatten (\<lambda>v. None) (''http://server'' @ ''/mf/workflows/'' @ ''ms2'')
           (Many [''A'', ''B'', ''A'']) None None (JObj [(''aggregations'', sample_aggs)]))\<close>
    by (simp add: quiet fields lw lt)
  from all [THEN conjunct2, THEN conjunct2, THEN conjunct2, THEN conjunct2, THEN conjunct2, THEN conjunct2, THEN conjunct2, THEN conjunct2, THEN conjunct2, THEN conjunct2, THEN conjunct2, THEN conjunct1] have c3: \<open>stats_task ascii_lower (\<lambda>v. None) ?client ''http://server''
        (sample_request\<lparr>param_workflowID := ''MS2'', param_taskID := ''T2.1''\<rparr>) =
      stats_task ascii_lower (\<lambda>v. None) ?client ''http://server''
        (sample_request\<lparr>param_workflowID := ''ms2'', param_taskID := ''t2.1''\<rparr>)\<close>
    .
  from all [THEN conjunct2, THEN conjunct2, THEN conjunct2, THEN conjunct2, THEN conjunct1] have c4: \<open>fst (get_config ascii_lower ?client ''MS2'') =
      [Get ''mf'' ''configurations'' ''ms2'']\<close>
    by (simp add: lw)
  from all [THEN conjunct2, THEN conjunct2, THEN conjunct2, THEN conjunct2, THEN conjunct2, THEN conjunct2, THEN conjunct2, THEN conjunct2, THEN conjunct2, THEN conjunct1] have c5: \<open>snd (put_workflow ascii_lower ?client ''http://server'' ''MS2'' JNull) =
      Some \<lparr>status = 200, json = JObj [(''href'', JStr ''http://server/mf/workflows/ms2'')]\<rparr>\<close>
    by (simp add: quiet lw)
  show ?thesis
    using m w t lw lt c1 c2 c3 c4 c5
    by (simp add: sample_flatten)
qed

end
